theory Spec2Isabelle
  imports Complex_Main "HOL-Library.AList"
begin

section \<open>Python values, exceptions and indexing\<close>

text \<open>
  Exceptions are values: every function of the repository that can raise returns
  \<open>py_error + 'a\<close>, with \<open>Inl\<close> the exception. \<open>LibraryError\<close> stands for
  any exception an external library raises for bad data (PIL cannot identify an image,
  OpenCV rejects an array); \<open>KeyboardInterrupt\<close> is not a subclass of \<open>Exception\<close>
  and is caught by a bare \<open>except:\<close> only.
\<close>

datatype py_error =
    IndexError
  | KeyError string
  | TypeError
  | AttributeError string
  | NameError string
  | UnboundLocalError string
  | YAMLError string
  | FileNotFoundError string
  | LibraryError string
  | KeyboardInterrupt

text \<open>Indexing a Python sequence with an int: negative indices count from the end,
  anything outside \<open>-n .. n-1\<close> raises IndexError.\<close>

definition py_index :: "'a list \<Rightarrow> int \<Rightarrow> py_error + 'a" where
  "py_index xs i =
     (if 0 \<le> i \<and> i < int (length xs) then Inr (xs ! nat i)
      else if i < 0 \<and> - int (length xs) \<le> i then Inr (xs ! nat (int (length xs) + i))
      else Inl IndexError)"

text \<open>The cells pandas hands out for a CSV column: a string, a number, or NaN for a
  missing field.\<close>

datatype cell = Str string | Num int | NaN

text \<open>\<open>str + x\<close>: concatenation when \<open>x\<close> is a string, TypeError otherwise.\<close>

fun str_add :: "string \<Rightarrow> cell \<Rightarrow> py_error + string" where
  "str_add s (Str t) = Inr (s @ t)"
| "str_add s (Num n) = Inl TypeError"
| "str_add s NaN = Inl TypeError"

section \<open>The label table (pandas DataFrame)\<close>

text \<open>A DataFrame as \<open>read_csv(..., header=0)\<close> returns it: the column names of the
  header line (pandas makes them distinct) and the rows, each a list of cells. A row
  shorter than the header has NaN in the missing fields.\<close>

record dataframe =
  columns :: "string list"
  rows :: "cell list list"

fun index_of :: "'a \<Rightarrow> 'a list \<Rightarrow> nat option" where
  "index_of x [] = None"
| "index_of x (y # ys) =
     (if x = y then Some 0 else map_option Suc (index_of x ys))"

definition cell_at :: "nat \<Rightarrow> cell list \<Rightarrow> cell" where
  "cell_at k r = (if k < length r then r ! k else NaN)"

text \<open>\<open>df[name]\<close>: the column's cells in row order, KeyError when there is no such
  column.\<close>

definition df_getitem :: "dataframe \<Rightarrow> string \<Rightarrow> py_error + cell list" where
  "df_getitem d name =
     (case index_of name (columns d) of
        None \<Rightarrow> Inl (KeyError name)
      | Some k \<Rightarrow> Inr (map (cell_at k) (rows d)))"

section \<open>Tensors\<close>

text \<open>A tensor is its shape and its elements in row-major order. The label tensor holds
  the floats 0.0 and 1.0 only, which are exact; they are modelled as reals.\<close>

record tensor =
  shape :: "nat list"
  elems :: "real list"

definition FloatTensor :: "real list \<Rightarrow> tensor" where
  "FloatTensor xs = \<lparr>shape = [length xs], elems = xs\<rparr>"

text \<open>\<open>squeeze()\<close> drops every dimension of size 1.\<close>

definition squeeze :: "tensor \<Rightarrow> tensor" where
  "squeeze t = t\<lparr>shape := filter (\<lambda>d. d \<noteq> 1) (shape t)\<rparr>"

text \<open>\<open>t[i]\<close> for an int: a 0-dim tensor cannot be indexed (IndexError); otherwise the
  index is taken along the first dimension, Python style, and the result is the
  sub-tensor of the remaining dimensions.\<close>

definition tensor_getitem :: "tensor \<Rightarrow> int \<Rightarrow> py_error + tensor" where
  "tensor_getitem t i =
     (case shape t of
        [] \<Rightarrow> Inl IndexError
      | n # ds \<Rightarrow>
          (let j = (if i < 0 then int n + i else i); m = prod_list ds
           in if 0 \<le> j \<and> j < int n
              then Inr \<lparr>shape = ds, elems = take m (drop (nat j * m) (elems t))\<rparr>
              else Inl IndexError))"

section \<open>Image objects and the file system\<close>

text \<open>A decoded single-channel image is its rows of pixel values; an RGB image has a
  triple per pixel.\<close>

type_synonym gray_image = "nat list list"
type_synonym rgb_image = "(nat \<times> nat \<times> nat) list list"

text \<open>PIL images are mutable objects: \<open>copy()\<close> exists so that a caller can change the
  copy and keep the original. The store maps each image object's address to its pixels;
  \<open>next_addr\<close> is the first address never handed out.\<close>

record store =
  objs :: "nat \<Rightarrow> rgb_image"
  next_addr :: nat

definition alloc :: "rgb_image \<Rightarrow> store \<Rightarrow> nat \<times> store" where
  "alloc v h = (next_addr h, \<lparr>objs = (objs h)(next_addr h := v), next_addr = Suc (next_addr h)\<rparr>)"

text \<open>What the repository reads from outside: \<open>pd.read_csv\<close> on a path,
  \<open>np.array(Image.open(path))\<close> on a path, and OpenCV's CLAHE (clip limit 2.0, tile
  grid 8 by 8) on an array. Each either raises or returns.\<close>

record filesystem =
  read_csv :: "string \<Rightarrow> py_error + dataframe"
  image_open :: "string \<Rightarrow> py_error + gray_image"
  clahe_apply :: "gray_image \<Rightarrow> py_error + gray_image"

text \<open>\<open>np.stack((image, image, image), 2).astype(np.uint8)\<close>: every pixel three times,
  reduced modulo 256.\<close>

definition stack3 :: "gray_image \<Rightarrow> rgb_image" where
  "stack3 g = map (map (\<lambda>p. (p mod 256, p mod 256, p mod 256))) g"

text \<open>The pixels \<open>preproc_image\<close> computes for a path.\<close>

definition preproc_pixels :: "filesystem \<Rightarrow> string \<Rightarrow> py_error + rgb_image" where
  "preproc_pixels fs path =
     (case image_open fs path of
        Inl e \<Rightarrow> Inl e
      | Inr img \<Rightarrow>
          (case clahe_apply fs img of
             Inl e \<Rightarrow> Inl e
           | Inr img' \<Rightarrow> Inr (stack3 img')))"

text \<open>\<open>HealthDataset.preproc_image\<close>: \<open>Image.fromarray\<close> makes a new image object.\<close>

definition preproc_image :: "filesystem \<Rightarrow> string \<Rightarrow> store \<Rightarrow> (py_error + nat) \<times> store" where
  "preproc_image fs path h =
     (case preproc_pixels fs path of
        Inl e \<Rightarrow> (Inl e, h)
      | Inr v \<Rightarrow> (case alloc v h of (a, h') \<Rightarrow> (Inr a, h')))"

text \<open>\<open>Image.copy()\<close>: a new object with the same pixels.\<close>

definition image_copy :: "nat \<Rightarrow> store \<Rightarrow> nat \<times> store" where
  "image_copy a h = alloc (objs h a) h"

section \<open>HealthDataset\<close>

text \<open>The \<open>labels\<close> attribute is a float tensor when the CSV has a label column and
  the plain list of the image column's cells otherwise.\<close>

datatype labels_attr = LabelTensor tensor | LabelList "cell list"

text \<open>What \<open>self.labels[idx]\<close> evaluates to: a sub-tensor or a list element.\<close>

datatype label_item = TensorItem tensor | ListItem cell

text \<open>A component of the returned pair: as loaded, or the result of the transform.\<close>

datatype ('a, 'b) component = Plain 'a | Transformed 'b

text \<open>A transform is called with an image object; it may write to objects of the store
  (PIL operations such as \<open>paste\<close> work in place) and returns a result or raises. A
  target transform is called with the label item. \<open>None\<close> is the default, which the tests
  \<open>if self.transform:\<close> and \<open>if self.target_transform:\<close> skip.\<close>

type_synonym 't image_transform = "nat \<Rightarrow> store \<Rightarrow> (py_error + 't) \<times> store"
type_synonym 'l label_transform = "label_item \<Rightarrow> py_error + 'l"

text \<open>The attributes of a constructed dataset. \<open>images\<close> is \<open>None\<close> when the attribute
  was never assigned (\<open>load_ram\<close> false); otherwise it lists the addresses of the cached
  image objects.\<close>

record ('t, 'l) HealthDataset =
  df :: dataframe
  df_contains_label :: bool
  labels :: labels_attr
  names :: "cell list"
  transform :: "'t image_transform option"
  target_transform :: "'l label_transform option"
  image_path :: string
  images :: "nat list option"
  load_ram :: bool

text \<open>\<open>0 if label == "negative" else 1\<close>: a cell that is not a string is never equal to
  \<open>"negative"\<close>.\<close>

definition label_code :: "cell \<Rightarrow> real" where
  "label_code label = (if label = Str ''negative'' then 0 else 1)"

text \<open>\<open>Parallel(n_jobs=20)(delayed(self.preproc_image)(self.image_path + name) for name
  in self.names)\<close>. joblib returns the results as a list in the order of its input and
  re-raises an exception of a task; the model runs the tasks in input order, so the
  exception it reports is the first failing task's.\<close>

fun parallel_preproc ::
  "filesystem \<Rightarrow> string \<Rightarrow> cell list \<Rightarrow> store \<Rightarrow> (py_error + nat list) \<times> store" where
  "parallel_preproc fs dir [] h = (Inr [], h)"
| "parallel_preproc fs dir (name # rest) h =
     (case str_add dir name of
        Inl e \<Rightarrow> (Inl e, h)
      | Inr path \<Rightarrow>
          (case preproc_image fs path h of
             (Inl e, h1) \<Rightarrow> (Inl e, h1)
           | (Inr a, h1) \<Rightarrow>
               (case parallel_preproc fs dir rest h1 of
                  (Inl e, h2) \<Rightarrow> (Inl e, h2)
                | (Inr as, h2) \<Rightarrow> (Inr (a # as), h2))))"

text \<open>\<open>HealthDataset.__init__\<close>.\<close>

definition HealthDataset_init ::
  "filesystem \<Rightarrow> string \<Rightarrow> string \<Rightarrow> 't image_transform option \<Rightarrow> 'l label_transform option \<Rightarrow>
   bool \<Rightarrow> store \<Rightarrow> (py_error + ('t, 'l) HealthDataset) \<times> store" where
  "HealthDataset_init fs label_path img_path tr ttr ram h =
     (case read_csv fs label_path of
        Inl e \<Rightarrow> (Inl e, h)
      | Inr d \<Rightarrow>
          (let contains = (''label'' \<in> set (columns d)) in
           case (if contains
                 then (case df_getitem d ''label'' of
                         Inl e \<Rightarrow> Inl e
                       | Inr col \<Rightarrow> Inr (LabelTensor (squeeze (FloatTensor (map label_code col)))))
                 else (case df_getitem d ''image'' of
                         Inl e \<Rightarrow> Inl e
                       | Inr col \<Rightarrow> Inr (LabelList col))) of
             Inl e \<Rightarrow> (Inl e, h)
           | Inr labs \<Rightarrow>
               (case df_getitem d ''image'' of
                  Inl e \<Rightarrow> (Inl e, h)
                | Inr nms \<Rightarrow>
                    (let self = \<lparr>df = d, df_contains_label = contains, labels = labs,
                                 names = nms, transform = tr, target_transform = ttr,
                                 image_path = img_path, images = None, load_ram = ram\<rparr>
                     in if ram
                        then (case parallel_preproc fs img_path nms h of
                                (Inl e, h') \<Rightarrow> (Inl e, h')
                              | (Inr imgs, h') \<Rightarrow> (Inr (self\<lparr>images := Some imgs\<rparr>), h'))
                        else (Inr self, h)))))"

text \<open>\<open>HealthDataset.load_image\<close>. With \<open>load_ram\<close> the cached object is copied; without
  it the file is decoded again.\<close>

definition load_image ::
  "filesystem \<Rightarrow> ('t, 'l) HealthDataset \<Rightarrow> int \<Rightarrow> store \<Rightarrow> (py_error + nat) \<times> store" where
  "load_image fs self idx h =
     (if load_ram self
      then (case images self of
              None \<Rightarrow> (Inl (AttributeError ''images''), h)
            | Some imgs \<Rightarrow>
                (case py_index imgs idx of
                   Inl e \<Rightarrow> (Inl e, h)
                 | Inr a \<Rightarrow> (case image_copy a h of (b, h') \<Rightarrow> (Inr b, h'))))
      else (case py_index (names self) idx of
              Inl e \<Rightarrow> (Inl e, h)
            | Inr name \<Rightarrow>
                (case str_add (image_path self) name of
                   Inl e \<Rightarrow> (Inl e, h)
                 | Inr path \<Rightarrow> preproc_image fs path h)))"

text \<open>\<open>HealthDataset.__len__\<close>: \<open>self.labels.shape[0]\<close>. A list has no attribute
  \<open>shape\<close>; a 0-dim tensor has the empty shape, which has no element 0.\<close>

definition HealthDataset_len :: "('t, 'l) HealthDataset \<Rightarrow> py_error + nat" where
  "HealthDataset_len self =
     (case labels self of
        LabelTensor t \<Rightarrow> py_index (shape t) 0
      | LabelList l \<Rightarrow> Inl (AttributeError ''shape''))"

text \<open>\<open>self.labels[idx]\<close>.\<close>

definition labels_getitem :: "labels_attr \<Rightarrow> int \<Rightarrow> py_error + label_item" where
  "labels_getitem labs idx =
     (case labs of
        LabelTensor t \<Rightarrow>
          (case tensor_getitem t idx of Inl e \<Rightarrow> Inl e | Inr x \<Rightarrow> Inr (TensorItem x))
      | LabelList l \<Rightarrow>
          (case py_index l idx of Inl e \<Rightarrow> Inl e | Inr c \<Rightarrow> Inr (ListItem c)))"

text \<open>\<open>HealthDataset.__getitem__\<close>.\<close>

definition HealthDataset_getitem ::
  "filesystem \<Rightarrow> ('t, 'l) HealthDataset \<Rightarrow> int \<Rightarrow> store \<Rightarrow>
   (py_error + (nat, 't) component \<times> (label_item, 'l) component) \<times> store" where
  "HealthDataset_getitem fs self idx h =
     (case load_image fs self idx h of
        (Inl e, h1) \<Rightarrow> (Inl e, h1)
      | (Inr a, h1) \<Rightarrow>
          (case labels_getitem (labels self) idx of
             Inl e \<Rightarrow> (Inl e, h1)
           | Inr label \<Rightarrow>
               (case (case transform self of
                        None \<Rightarrow> (Inr (Plain a), h1)
                      | Some f \<Rightarrow>
                          (case f a h1 of
                             (Inl e, h2) \<Rightarrow> (Inl e, h2)
                           | (Inr x, h2) \<Rightarrow> (Inr (Transformed x), h2))) of
                  (Inl e, h2) \<Rightarrow> (Inl e, h2)
                | (Inr img, h2) \<Rightarrow>
                    (case (case target_transform self of
                             None \<Rightarrow> Inr (Plain label)
                           | Some g \<Rightarrow>
                               (case g label of
                                  Inl e \<Rightarrow> Inl e
                                | Inr y \<Rightarrow> Inr (Transformed y))) of
                       Inl e \<Rightarrow> (Inl e, h2)
                     | Inr lab \<Rightarrow> (Inr (img, lab), h2)))))"

section \<open>The example script of health.py\<close>

text \<open>What the script prints and writes, next to the store of image objects.\<close>

record world =
  heap :: store
  stdout :: "(nat \<times> nat) list"
  saved :: "(string \<times> gray_image) list"

text \<open>The library calls of the script: the composed transform (equalize, then resize to
  320 by 320; it returns a new image object), PIL's conversion to mode \<open>"L"\<close>, and
  writing a PNG file, which raises or succeeds.\<close>

record pil =
  compose :: "nat image_transform"
  convert_L :: "rgb_image \<Rightarrow> gray_image"
  save_png :: "string \<Rightarrow> gray_image \<Rightarrow> py_error option"

text \<open>\<open>img.size\<close>: width and height.\<close>

definition image_size :: "rgb_image \<Rightarrow> nat \<times> nat" where
  "image_size v = (case v of [] \<Rightarrow> (0, 0) | r # rs \<Rightarrow> (length r, length v))"

text \<open>\<open>str(i)\<close> for a non-negative int, as the f-string formats it.\<close>

fun str_of_nat :: "nat \<Rightarrow> string" where
  "str_of_nat n =
     (if n < 10 then [char_of (48 + n)]
      else str_of_nat (n div 10) @ [char_of (48 + n mod 10)])"

declare str_of_nat.simps [simp del]

definition data_dir :: string where
  "data_dir = ''/hkfs/work/workspace/scratch/im9193-H5/tmp/''"

text \<open>The image object of a component of the pair (the script's transform returns
  one).\<close>

fun component_object :: "(nat, nat) component \<Rightarrow> nat" where
  "component_object (Plain a) = a"
| "component_object (Transformed a) = a"

text \<open>The statements inside \<open>try:\<close> for the index \<open>i\<close>. What was printed before an
  exception stays printed.\<close>

definition script_body ::
  "filesystem \<Rightarrow> pil \<Rightarrow> (nat, 'l) HealthDataset \<Rightarrow> nat \<Rightarrow> world \<Rightarrow> (py_error + unit) \<times> world" where
  "script_body fs lib dataset i w =
     (case HealthDataset_getitem fs dataset (int i) (heap w) of
        (Inl e, h1) \<Rightarrow> (Inl e, w\<lparr>heap := h1\<rparr>)
      | (Inr (img, lab), h1) \<Rightarrow>
          (let a = component_object img;
               w1 = w\<lparr>heap := h1, stdout := stdout w @ [image_size (objs h1 a)]\<rparr>;
               (b, h2) = alloc (objs h1 a) h1;
               w2 = w1\<lparr>heap := h2, stdout := stdout w1 @ [image_size (objs h2 b)]\<rparr>;
               g = convert_L lib (objs h2 b);
               path = data_dir @ str_of_nat i @ ''.png''
           in case save_png lib path g of
                Some e \<Rightarrow> (Inl e, w2)
              | None \<Rightarrow> (Inr (), w2\<lparr>saved := saved w2 @ [(path, g)]\<rparr>)))"

text \<open>A Python \<open>for\<close> loop over a list: an exception that leaves the body ends the
  loop.\<close>

fun py_for ::
  "('i \<Rightarrow> 'w \<Rightarrow> (py_error + unit) \<times> 'w) \<Rightarrow> 'i list \<Rightarrow> 'w \<Rightarrow> (py_error + unit) \<times> 'w" where
  "py_for body [] w = (Inr (), w)"
| "py_for body (i # is) w =
     (case body i w of
        (Inl e, w') \<Rightarrow> (Inl e, w')
      | (Inr u, w') \<Rightarrow> py_for body is w')"

text \<open>\<open>try: ... except: continue\<close>: the bare \<open>except\<close> catches every exception and the
  body ends normally.\<close>

definition try_except_continue ::
  "('i \<Rightarrow> 'w \<Rightarrow> (py_error + unit) \<times> 'w) \<Rightarrow> 'i \<Rightarrow> 'w \<Rightarrow> (py_error + unit) \<times> 'w" where
  "try_except_continue body i w =
     (case body i w of
        (Inl e, w') \<Rightarrow> (Inr (), w')
      | (Inr u, w') \<Rightarrow> (Inr (), w'))"

text \<open>\<open>for i in range(150): try: ... except: continue\<close>.\<close>

definition script_loop ::
  "filesystem \<Rightarrow> pil \<Rightarrow> (nat, 'l) HealthDataset \<Rightarrow> world \<Rightarrow> (py_error + unit) \<times> world" where
  "script_loop fs lib dataset w =
     py_for (try_except_continue (script_body fs lib dataset)) [0..<150] w"

text \<open>The script: it constructs the dataset without the cache and runs the loop.\<close>

definition script_main :: "filesystem \<Rightarrow> pil \<Rightarrow> world \<Rightarrow> (py_error + unit) \<times> world" where
  "script_main fs lib w =
     (case HealthDataset_init fs ''/hkfs/work/workspace/scratch/im9193-H5/data/valid.csv''
             ''/hkfs/work/workspace/scratch/im9193-H5/data/imgs/''
             (Some (compose lib)) (None :: unit label_transform option) False (heap w) of
        (Inl e, h) \<Rightarrow> (Inl e, w\<lparr>heap := h\<rparr>)
      | (Inr dataset, h) \<Rightarrow> script_loop fs lib dataset (w\<lparr>heap := h\<rparr>))"

section \<open>Configuration loading (mvit\_module.py)\<close>

text \<open>A parsed YAML document: a scalar, a sequence, or a mapping with its keys in
  document order.\<close>

datatype yaml = Scalar string | Seq "yaml list" | Mapping "(string \<times> yaml) list"

text \<open>\<open>dict(items)\<close>: a later pair replaces the value of an earlier pair with the same
  key and keeps its position.\<close>

definition py_dict :: "(string \<times> 'v) list \<Rightarrow> (string \<times> 'v) list" where
  "py_dict items = foldl (\<lambda>acc kv. AList.update (fst kv) (snd kv) acc) [] items"

text \<open>\<open>flatten_yaml_as_dict\<close>, for a Python in which \<open>collections.MutableMapping\<close>
  exists. \<open>flatten_items\<close> is the list \<open>items\<close> the loop builds.\<close>

fun flatten_items :: "(string \<times> yaml) list \<Rightarrow> string \<Rightarrow> string \<Rightarrow> (string \<times> yaml) list" where
  "flatten_items [] parent_key sep = []"
| "flatten_items ((k, v) # rest) parent_key sep =
     (let new_key = (if parent_key \<noteq> [] then parent_key @ sep @ k else k)
      in (case v of
            Mapping m \<Rightarrow> py_dict (flatten_items m new_key sep)
          | Scalar s \<Rightarrow> [(new_key, v)]
          | Seq l \<Rightarrow> [(new_key, v)])
         @ flatten_items rest parent_key sep)"

definition flatten_yaml_as_dict :: "(string \<times> yaml) list \<Rightarrow> string \<Rightarrow> string \<Rightarrow> (string \<times> yaml) list" where
  "flatten_yaml_as_dict d parent_key sep = py_dict (flatten_items d parent_key sep)"

text \<open>\<open>NestedNamespace\<close>: an attribute per key; a dict value becomes a namespace.\<close>

datatype namespace = Attr yaml | Namespace "(string \<times> namespace) list"

primrec namespace_value :: "yaml \<Rightarrow> namespace" where
  "namespace_value (Scalar s) = Attr (Scalar s)"
| "namespace_value (Seq l) = Attr (Seq l)"
| "namespace_value (Mapping m) = Namespace (py_dict (map (map_prod id namespace_value) m))"

definition NestedNamespace :: "(string \<times> yaml) list \<Rightarrow> namespace" where
  "NestedNamespace dictionary = Namespace (py_dict (map (map_prod id namespace_value) dictionary))"

text \<open>Objects a module-level name can be bound to, as far as \<open>load_config\<close> uses them:
  a bool, a logger, or any other object (a module, a class, a function), which is true
  in a condition and has no method \<open>warning\<close>.\<close>

datatype pyobj = PyBool bool | PyLogger | PyObject

fun truthy :: "pyobj \<Rightarrow> bool" where
  "truthy (PyBool b) = b"
| "truthy PyLogger = True"
| "truthy PyObject = True"

text \<open>The names bound at module level in mvit\_module.py: its imports and its
  definitions. Neither \<open>is_master_node\<close> nor \<open>logger\<close> is among them, and neither is a
  Python builtin.\<close>

definition mvit_module_globals :: "string \<Rightarrow> pyobj option" where
  "mvit_module_globals =
     map_of (map (\<lambda>n. (n, PyObject))
       [''Any'', ''List'', ''torch'', ''nn'', ''LightningModule'', ''MaxMetric'', ''Accuracy'',
        ''build_classification_model'', ''argparse'', ''yaml'', ''collections'',
        ''SimpleNamespace'', ''flatten_yaml_as_dict'', ''NestedNamespace'', ''load_config'',
        ''MVITLitModule''])"

text \<open>Outside the repository: opening a file for reading and \<open>yaml.load\<close> with the
  full loader, which returns the document or raises \<open>YAMLError\<close>.\<close>

record config_files =
  open_file :: "string \<Rightarrow> py_error + string"
  yaml_load :: "string \<Rightarrow> py_error + yaml"

text \<open>\<open>load_config\<close>, with the warnings the logger has received. Only \<open>YAMLError\<close> is
  caught. In the handler the names \<open>is_master_node\<close> and \<open>logger\<close> are looked up in the
  module's globals; after the handler \<open>return obj_cfg\<close> reads a local variable that was
  never assigned.\<close>

definition load_config ::
  "(string \<Rightarrow> pyobj option) \<Rightarrow> config_files \<Rightarrow> string \<Rightarrow> string list \<Rightarrow>
   (py_error + namespace) \<times> string list" where
  "load_config globals files config_file_name warnings =
     (case open_file files config_file_name of
        Inl e \<Rightarrow> (Inl e, warnings)
      | Inr yaml_file \<Rightarrow>
          (case yaml_load files yaml_file of
             Inr cfg \<Rightarrow>
               (case cfg of
                  Mapping d \<Rightarrow> (Inr (NestedNamespace (flatten_yaml_as_dict d [] ''.'')), warnings)
                | Scalar s \<Rightarrow> (Inl (AttributeError ''items''), warnings)
                | Seq l \<Rightarrow> (Inl (AttributeError ''items''), warnings))
           | Inl (YAMLError exc) \<Rightarrow>
               (case globals ''is_master_node'' of
                  None \<Rightarrow> (Inl (NameError ''is_master_node''), warnings)
                | Some v \<Rightarrow>
                    if truthy v
                    then (case globals ''logger'' of
                            None \<Rightarrow> (Inl (NameError ''logger''), warnings)
                          | Some PyLogger \<Rightarrow>
                              (Inl (UnboundLocalError ''obj_cfg''),
                               warnings @ [''Error while loading config file: '' @ config_file_name,
                                           ''Error message: '' @ exc])
                          | Some (PyBool b) \<Rightarrow> (Inl (AttributeError ''warning''), warnings)
                          | Some PyObject \<Rightarrow> (Inl (AttributeError ''warning''), warnings))
                    else (Inl (UnboundLocalError ''obj_cfg''), warnings))
           | Inl e \<Rightarrow> (Inl e, warnings)))"

definition default_config_file_name :: string where
  "default_config_file_name =
     ''/hkfs/work/workspace/scratch/im9193-H5/AI-HERO-Health_tgp/pre_trained/model_conf.yaml''"

text \<open>A configuration file whose text is not valid YAML.\<close>

definition ex_config_files :: config_files where
  "ex_config_files =
     \<lparr>open_file = (\<lambda>p. Inr ''model: [classification''),
      yaml_load = (\<lambda>t. if t = ''model: [classification''
                         then Inl (YAMLError ''expected , or ] but got <stream end>'')
                         else Inr (Mapping []))\<rparr>"

section \<open>Notions used to state the properties\<close>

text \<open>A transform that writes to no object that existed before the call, other than
  the one it is handed; it may allocate and write new objects.\<close>

definition writes_only_argument :: "'t image_transform \<Rightarrow> bool" where
  "writes_only_argument f \<longleftrightarrow>
     (\<forall>a h b. b < next_addr h \<and> b \<noteq> a \<longrightarrow> objs (snd (f a h)) b = objs h b)"

text \<open>What a call of \<open>load_image\<close> yields: the exception, or the pixels of the image
  object it returns.\<close>

definition loaded_image :: "(py_error + nat) \<times> store \<Rightarrow> py_error + rgb_image" where
  "loaded_image r = (case r of (Inl e, h) \<Rightarrow> Inl e | (Inr a, h) \<Rightarrow> Inr (objs h a))"

text \<open>An int index is in range for a sequence of \<open>n\<close> elements when it lies in
  \<open>-n .. n-1\<close>; the position it denotes counts from the end when it is negative.\<close>

definition py_in_range :: "nat \<Rightarrow> int \<Rightarrow> bool" where
  "py_in_range n i \<longleftrightarrow> - int n \<le> i \<and> i < int n"

definition py_position :: "nat \<Rightarrow> int \<Rightarrow> nat" where
  "py_position n i = nat (if i < 0 then int n + i else i)"

text \<open>The image objects the dataset holds in its cache.\<close>

definition cached_objects :: "('t, 'l) HealthDataset \<Rightarrow> nat list" where
  "cached_objects ds = (case images ds of None \<Rightarrow> [] | Some imgs \<Rightarrow> imgs)"

section \<open>Example inputs\<close>

text \<open>A label table of two rows with a label column, the two image files, and a store
  with no objects. \<open>ex_blank\<close> is a transform that works in place: it returns the pixels
  of the image it is handed and blanks that image.\<close>

definition ex_df :: dataframe where
  "ex_df = \<lparr>columns = [''image'', ''label''],
            rows = [[Str ''a.png'', Str ''negative''], [Str ''b.png'', Str ''positive'']]\<rparr>"

text \<open>A table without a label column; its second file does not exist.\<close>

definition ex_df_nolabel :: dataframe where
  "ex_df_nolabel = \<lparr>columns = [''image''], rows = [[Str ''a.png''], [Str ''c.png'']]\<rparr>"

text \<open>A table of a single row with a label column.\<close>

definition ex_df_one :: dataframe where
  "ex_df_one = \<lparr>columns = [''image'', ''label''], rows = [[Str ''a.png'', Str ''positive'']]\<rparr>"

definition ex_fs :: filesystem where
  "ex_fs = \<lparr>read_csv = (\<lambda>p. if p = ''valid.csv'' then Inr ex_df
                             else if p = ''test.csv'' then Inr ex_df_nolabel
                             else if p = ''one.csv'' then Inr ex_df_one
                             else Inl (FileNotFoundError p)),
            image_open = (\<lambda>p. if p = ''imgs/a.png'' then Inr [[1, 300]]
                               else if p = ''imgs/b.png'' then Inr [[7]]
                               else Inl (FileNotFoundError p)),
            clahe_apply = (\<lambda>g. Inr g)\<rparr>"

definition ex_store :: store where
  "ex_store = \<lparr>objs = (\<lambda>a. []), next_addr = 0\<rparr>"

definition ex_blank :: "rgb_image image_transform" where
  "ex_blank a h = (Inr (objs h a), h\<lparr>objs := (objs h)(a := [])\<rparr>)"

section \<open>Properties of HealthDataset\<close>

lemma preproc_image_Inr:
  "preproc_image fs path h = (Inr a, h') \<Longrightarrow>
     a = next_addr h \<and> next_addr h' = Suc (next_addr h) \<and>
     preproc_pixels fs path = Inr (objs h' a) \<and> (\<forall>b. b \<noteq> a \<longrightarrow> objs h' b = objs h b)"
  by (auto simp: preproc_image_def alloc_def split: sum.splits)

lemma preproc_image_Inl:
  "preproc_image fs path h = (Inl e, h') \<Longrightarrow> preproc_pixels fs path = Inl e \<and> h' = h"
  by (auto simp: preproc_image_def alloc_def split: sum.splits)

lemma preproc_image_frame:
  "b < next_addr h \<Longrightarrow> objs (snd (preproc_image fs path h)) b = objs h b"
  by (auto simp: preproc_image_def alloc_def split: sum.splits)

lemma str_add_Inr: "str_add s c = Inr p \<Longrightarrow> \<exists>t. c = Str t \<and> p = s @ t"
  by (cases c) auto

lemma parallel_preproc_Inr:
  "parallel_preproc fs dir nms h = (Inr as, h') \<Longrightarrow>
     as = [next_addr h ..< next_addr h + length nms] \<and>
     next_addr h' = next_addr h + length nms \<and>
     (\<forall>b<next_addr h. objs h' b = objs h b) \<and>
     (\<forall>i<length nms. \<exists>s. nms ! i = Str s \<and>
         preproc_pixels fs (dir @ s) = Inr (objs h' (next_addr h + i)))"
proof (induction nms arbitrary: h as h')
  case Nil
  then show ?case by simp
next
  case (Cons name rest)
  from Cons.prems obtain path a h1 bs where
    p: "str_add dir name = Inr path" and
    q: "preproc_image fs path h = (Inr a, h1)" and
    r: "parallel_preproc fs dir rest h1 = (Inr bs, h')" and
    as: "as = a # bs"
    by (auto split: sum.splits prod.splits)
  from str_add_Inr[OF p] obtain t where t: "name = Str t" "path = dir @ t" by blast
  note q' = preproc_image_Inr[OF q]
  note ih = Cons.IH[OF r]
  have n1: "next_addr h1 = Suc (next_addr h)" using q' by simp
  have a: "a = next_addr h" using q' by simp
  have u: "[next_addr h ..< next_addr h + length (name # rest)] =
      next_addr h # [Suc (next_addr h) ..< Suc (next_addr h) + length rest]"
    by (subst upt_rec) simp
  have bs: "bs = [Suc (next_addr h) ..< Suc (next_addr h) + length rest]"
    using ih n1 by simp
  have 1: "as = [next_addr h ..< next_addr h + length (name # rest)]"
    unfolding u as a bs by (rule refl)
  have 2: "next_addr h' = next_addr h + length (name # rest)"
    using ih n1 by simp
  have 3: "\<forall>b<next_addr h. objs h' b = objs h b"
    using ih q' n1 a by auto
  have keep: "objs h' a = objs h1 a" using ih n1 a by simp
  have 4: "\<exists>s. (name # rest) ! i = Str s \<and>
         preproc_pixels fs (dir @ s) = Inr (objs h' (next_addr h + i))"
    if i: "i < length (name # rest)" for i
  proof (cases i)
    case 0
    then show ?thesis using t q' keep a by simp
  next
    case (Suc j)
    then have "j < length rest" using i by simp
    with ih obtain s where "rest ! j = Str s"
      "preproc_pixels fs (dir @ s) = Inr (objs h' (next_addr h1 + j))" by blast
    then show ?thesis using Suc n1 by simp
  qed
  from 1 2 3 4 show ?case by blast
qed


lemma init_Inr:
  assumes "HealthDataset_init fs lp ip tr ttr ram h = (Inr ds, h')"
  shows "\<exists>d nms. read_csv fs lp = Inr d \<and> df_getitem d ''image'' = Inr nms \<and>
     df ds = d \<and> names ds = nms \<and> transform ds = tr \<and> target_transform ds = ttr \<and>
     image_path ds = ip \<and> load_ram ds = ram \<and>
     df_contains_label ds = (''label'' \<in> set (columns d)) \<and>
     (if ''label'' \<in> set (columns d)
      then \<exists>col. df_getitem d ''label'' = Inr col \<and>
             labels ds = LabelTensor (squeeze (FloatTensor (map label_code col)))
      else labels ds = LabelList nms) \<and>
     (if ram
      then \<exists>imgs. parallel_preproc fs ip nms h = (Inr imgs, h') \<and> images ds = Some imgs
      else images ds = None \<and> h' = h)"
  using assms
  by (auto simp: HealthDataset_init_def Let_def split: sum.splits prod.splits if_splits)

lemma df_getitem_length: "df_getitem d name = Inr col \<Longrightarrow> length col = length (rows d)"
  by (auto simp: df_getitem_def split: option.splits)

lemma index_of_Some_iff: "(\<exists>k. index_of x ys = Some k) \<longleftrightarrow> x \<in> set ys"
  by (induction ys) auto

lemma index_of_Some: "index_of x ys = Some k \<Longrightarrow> k < length ys \<and> ys ! k = x"
  by (induction ys arbitrary: k) (auto split: if_splits)

lemma df_getitem_Inr:
  "df_getitem d name = Inr col \<Longrightarrow>
     \<exists>k. index_of name (columns d) = Some k \<and> col = map (cell_at k) (rows d)"
  by (auto simp: df_getitem_def split: option.splits)

lemma py_index_in_range:
  "py_in_range (length xs) i \<Longrightarrow> py_index xs i = Inr (xs ! py_position (length xs) i)"
  "py_in_range (length xs) i \<Longrightarrow> py_position (length xs) i < length xs"
  "\<not> py_in_range (length xs) i \<Longrightarrow> py_index xs i = Inl IndexError"
  by (auto simp: py_in_range_def py_position_def py_index_def)

text \<open>
  Claim C1. Let \<open>d\<close> be the table \<open>read_csv\<close> returns for the label path, with a
  label column. Then \<open>__init__\<close> makes \<open>labels\<close> the tensor whose elements are, row by
  row of \<open>d\<close> and in row order, 0 where the label cell is the string \<open>"negative"\<close> and
  1 for any other cell: one element per CSV row. Its shape is \<open>[n]\<close> for \<open>n\<close> rows,
  except that \<open>squeeze()\<close> leaves the empty shape for a table of one row.
\<close>

theorem labels_from_csv:
  assumes csv: "read_csv fs lp = Inr d"
      and lab: "''label'' \<in> set (columns d)"
      and init: "HealthDataset_init fs lp ip tr ttr ram h = (Inr ds, h')"
  shows "\<exists>k. index_of ''label'' (columns d) = Some k \<and>
           labels ds =
             LabelTensor
               \<lparr>shape = (if length (rows d) = 1 then [] else [length (rows d)]),
                elems = map (\<lambda>r. if cell_at k r = Str ''negative'' then 0 else 1) (rows d)\<rparr> \<and>
           (\<forall>t. labels ds = LabelTensor t \<longrightarrow> length (elems t) = length (rows d))"
proof -
  from init_Inr[OF init] csv lab obtain col where
    c: "df_getitem d ''label'' = Inr col"
    and l: "labels ds = LabelTensor (squeeze (FloatTensor (map label_code col)))"
    by auto
  from c obtain k where k: "index_of ''label'' (columns d) = Some k"
    and col: "col = map (cell_at k) (rows d)"
    by (auto simp: df_getitem_def split: option.splits)
  have lc: "label_code = (\<lambda>c. if c = Str ''negative'' then 0 else 1)"
    by (rule ext) (simp add: label_code_def)
  have "labels ds =
             LabelTensor
               \<lparr>shape = (if length (rows d) = 1 then [] else [length (rows d)]),
                elems = map (\<lambda>r. if cell_at k r = Str ''negative'' then 0 else 1) (rows d)\<rparr>"
    using l col by (simp add: squeeze_def FloatTensor_def lc o_def)
  then show ?thesis using k by simp
qed

lemma load_image_frame:
  "b < next_addr h \<Longrightarrow> objs (snd (load_image fs ds idx h)) b = objs h b"
  by (auto simp: load_image_def image_copy_def alloc_def preproc_image_def
           split: sum.splits option.splits prod.splits)

lemma load_image_Inr:
  "load_image fs ds idx h = (Inr a, h1) \<Longrightarrow> a = next_addr h \<and> next_addr h1 = Suc (next_addr h)"
  by (auto simp: load_image_def image_copy_def alloc_def preproc_image_def
           split: sum.splits option.splits prod.splits if_splits)

lemma getitem_frame:
  assumes tr: "\<forall>f. transform ds = Some f \<longrightarrow> writes_only_argument f"
      and b: "b < next_addr h"
  shows "objs (snd (HealthDataset_getitem fs ds idx h)) b = objs h b"
proof (cases "load_image fs ds idx h")
  case (Pair r h1)
  have h1: "objs h1 b = objs h b" using load_image_frame[OF b, of fs ds idx] Pair by simp
  show ?thesis
  proof (cases r)
    case (Inl e)
    then show ?thesis using Pair h1 by (simp add: HealthDataset_getitem_def)
  next
    case (Inr a)
    from load_image_Inr[OF Pair[unfolded Inr]] have a: "a = next_addr h" "next_addr h1 = Suc (next_addr h)"
      by simp_all
    have ba: "b < next_addr h1" "b \<noteq> a" using a b by simp_all
    have trf: "objs (snd (f a h1)) b = objs h1 b" if "transform ds = Some f" for f
      using tr that ba unfolding writes_only_argument_def by blast
    show ?thesis
      using Pair Inr h1 trf
      by (auto simp: HealthDataset_getitem_def split: sum.splits option.splits prod.splits)
  qed
qed

text \<open>
  Claim C2. Let \<open>d\<close> be the table \<open>read_csv\<close> returns for the label path. After
  construction with \<open>load_ram=True\<close> the cache is a list of distinct image objects, one
  per row of \<open>d\<close>, the i-th holding the preprocessed pixels of the file named in the
  image column of the i-th row (image directory and name concatenated); \<open>names\<close> is
  that column. No dataset operation (\<open>load_image\<close>, \<open>__getitem__\<close>, \<open>preproc_image\<close>)
  run in any later store changes the pixels of a cached object: the transform is
  handed a copy. The transform is taken to write to no other existing object than the
  one it is handed.
\<close>

theorem image_cache_aligned_and_stable:
  assumes csv: "read_csv fs lp = Inr d"
      and init: "HealthDataset_init fs lp ip tr ttr True h = (Inr ds, h')"
      and frame: "\<forall>f. tr = Some f \<longrightarrow> writes_only_argument f"
      and later: "next_addr h' \<le> next_addr h1"
  shows "\<exists>k imgs. index_of ''image'' (columns d) = Some k \<and>
           names ds = map (cell_at k) (rows d) \<and>
           images ds = Some imgs \<and> length imgs = length (rows d) \<and> distinct imgs \<and>
           (\<forall>i<length (rows d). \<exists>s. cell_at k (rows d ! i) = Str s \<and>
               preproc_pixels fs (ip @ s) = Inr (objs h' (imgs ! i))) \<and>
           (\<forall>a\<in>set imgs.
               objs (snd (load_image fs ds idx h1)) a = objs h1 a \<and>
               objs (snd (HealthDataset_getitem fs ds idx h1)) a = objs h1 a \<and>
               objs (snd (preproc_image fs path h1)) a = objs h1 a)"
proof -
  from init_Inr[OF init] csv obtain imgs where
    nm: "df_getitem d ''image'' = Inr (names ds)" and
    tr: "transform ds = tr" and
    pp: "parallel_preproc fs ip (names ds) h = (Inr imgs, h')" and
    im: "images ds = Some imgs"
    by auto
  from df_getitem_Inr[OF nm] obtain k where
    k: "index_of ''image'' (columns d) = Some k" and
    names: "names ds = map (cell_at k) (rows d)" by blast
  note P = parallel_preproc_Inr[OF pp]
  have len: "length (names ds) = length (rows d)" using names by simp
  have imgs: "imgs = [next_addr h ..< next_addr h + length (names ds)]" using P by simp
  have l2: "length imgs = length (rows d)" using imgs len by simp
  have dist: "distinct imgs" using imgs by simp
  have al: "\<exists>s. cell_at k (rows d ! i) = Str s \<and> preproc_pixels fs (ip @ s) = Inr (objs h' (imgs ! i))"
    if "i < length (rows d)" for i
  proof -
    have i: "i < length (names ds)" using that len by simp
    then have ii: "imgs ! i = next_addr h + i" using imgs by simp
    have ni: "names ds ! i = cell_at k (rows d ! i)" using names that by simp
    from P i obtain s where "names ds ! i = Str s"
      "preproc_pixels fs (ip @ s) = Inr (objs h' (next_addr h + i))" by blast
    then show ?thesis using ii ni by auto
  qed
  have st: "objs (snd (load_image fs ds idx h1)) a = objs h1 a \<and>
               objs (snd (HealthDataset_getitem fs ds idx h1)) a = objs h1 a \<and>
               objs (snd (preproc_image fs path h1)) a = objs h1 a"
    if "a \<in> set imgs" for a
  proof -
    have "a < next_addr h'" using that imgs P by auto
    then have a: "a < next_addr h1" using later by simp
    have fr: "\<forall>f. transform ds = Some f \<longrightarrow> writes_only_argument f" using frame tr by simp
    show ?thesis
      using load_image_frame[OF a] getitem_frame[OF fr a] preproc_image_frame[OF a] by simp
  qed
  show ?thesis using k names im l2 dist al st by blast
qed


lemma init_lazy_of_ram:
  assumes "HealthDataset_init fs lp ip tr ttr True h = (Inr d1, h1)"
  shows "\<exists>d2. HealthDataset_init fs lp ip tr ttr False h = (Inr d2, h) \<and>
           names d2 = names d1 \<and> image_path d2 = ip \<and> \<not> load_ram d2"
proof -
  from init_Inr[OF assms] obtain d where
    d: "read_csv fs lp = Inr d" and nm: "df_getitem d ''image'' = Inr (names d1)" and
    lab: "''label'' \<in> set (columns d) \<Longrightarrow> \<exists>col. df_getitem d ''label'' = Inr col"
    by auto
  show ?thesis
  proof (cases "''label'' \<in> set (columns d)")
    case True
    with lab obtain col where "df_getitem d ''label'' = Inr col" by auto
    then show ?thesis using d nm True by (simp add: HealthDataset_init_def Let_def)
  next
    case False
    then show ?thesis using d nm by (simp add: HealthDataset_init_def Let_def)
  qed
qed

text \<open>
  Claim C9. Let \<open>d\<close> be the table \<open>read_csv\<close> returns, \<open>d1\<close> the dataset constructed
  with \<open>load_ram=True\<close> and \<open>d2\<close> the one constructed with \<open>load_ram=False\<close> (which
  exists whenever \<open>d1\<close> does). In any later store in which the cached objects still
  hold their pixels, and for \<open>d2\<close> in any store at all, \<open>load_image\<close> at an in-range
  index returns an image on both paths, with the same pixels: those \<open>preproc_image\<close>
  computes for the file named in that row. The cached path returns a new object (the
  copy), never a cached one. At an index out of range both raise IndexError.
\<close>

theorem load_image_cached_equals_recomputed:
  assumes csv: "read_csv fs lp = Inr d"
      and init: "HealthDataset_init fs lp ip tr ttr True h = (Inr d1, h1)"
      and later: "next_addr h1 \<le> next_addr hA"
      and intact: "\<forall>a\<in>set (cached_objects d1). objs hA a = objs h1 a"
  shows "\<exists>d2 k. HealthDataset_init fs lp ip tr ttr False h = (Inr d2, h) \<and>
           index_of ''image'' (columns d) = Some k \<and>
           (\<forall>idx. py_in_range (length (rows d)) idx \<longrightarrow>
              (\<exists>s v. cell_at k (rows d ! py_position (length (rows d)) idx) = Str s \<and>
                     preproc_pixels fs (ip @ s) = Inr v \<and>
                     loaded_image (load_image fs d1 idx hA) = Inr v \<and>
                     loaded_image (load_image fs d2 idx hB) = Inr v \<and>
                     fst (load_image fs d1 idx hA) = Inr (next_addr hA) \<and>
                     next_addr hA \<notin> set (cached_objects d1))) \<and>
           (\<forall>idx. \<not> py_in_range (length (rows d)) idx \<longrightarrow>
              load_image fs d1 idx hA = (Inl IndexError, hA) \<and>
              load_image fs d2 idx hB = (Inl IndexError, hB))"
proof -
  from init_Inr[OF init] csv obtain imgs where
    nm: "df_getitem d ''image'' = Inr (names d1)" and
    pp: "parallel_preproc fs ip (names d1) h = (Inr imgs, h1)" and
    im: "images d1 = Some imgs" and lr: "load_ram d1" and ipd: "image_path d1 = ip"
    by auto
  from df_getitem_Inr[OF nm] obtain k where
    k: "index_of ''image'' (columns d) = Some k" and
    names: "names d1 = map (cell_at k) (rows d)" by blast
  from init_lazy_of_ram[OF init] obtain d2 where d2: "HealthDataset_init fs lp ip tr ttr False h = (Inr d2, h)"
    "names d2 = names d1" "image_path d2 = ip" "\<not> load_ram d2" by blast
  note P = parallel_preproc_Inr[OF pp]
  have imgs: "imgs = [next_addr h ..< next_addr h + length (names d1)]" using P by simp
  have n: "length (names d1) = length (rows d)" using names by simp
  have ll: "length imgs = length (rows d)" using imgs n by simp
  have co: "cached_objects d1 = imgs" using im by (simp add: cached_objects_def)
  have fresh: "next_addr hA \<notin> set (cached_objects d1)"
    using co imgs P later by auto
  have A: "\<exists>s v. cell_at k (rows d ! py_position (length (rows d)) idx) = Str s \<and>
                     preproc_pixels fs (ip @ s) = Inr v \<and>
                     loaded_image (load_image fs d1 idx hA) = Inr v \<and>
                     loaded_image (load_image fs d2 idx hB) = Inr v \<and>
                     fst (load_image fs d1 idx hA) = Inr (next_addr hA) \<and>
                     next_addr hA \<notin> set (cached_objects d1)"
    if r: "py_in_range (length (rows d)) idx" for idx
  proof -
    define j where "j = py_position (length (rows d)) idx"
    have j: "j < length (rows d)" using py_index_in_range(2)[of "rows d" idx] r j_def by simp
    have pi: "py_index imgs idx = Inr (imgs ! j)"
      using py_index_in_range(1)[of imgs idx] r ll j_def by simp
    have pn: "py_index (names d1) idx = Inr (names d1 ! j)"
      using py_index_in_range(1)[of "names d1" idx] r n j_def by simp
    have ij: "imgs ! j = next_addr h + j" using imgs j n by simp
    from P j n obtain s where s: "names d1 ! j = Str s"
      "preproc_pixels fs (ip @ s) = Inr (objs h1 (next_addr h + j))" by auto
    have cell: "cell_at k (rows d ! j) = Str s" using s(1) names j by simp
    have mem: "imgs ! j \<in> set imgs" using j ll by simp
    have keep: "objs hA (imgs ! j) = objs h1 (imgs ! j)" using intact co mem by simp
    have LA: "load_image fs d1 idx hA = (Inr (next_addr hA), snd (alloc (objs hA (imgs ! j)) hA))"
      using lr im pi by (simp add: load_image_def image_copy_def alloc_def)
    have la: "loaded_image (load_image fs d1 idx hA) = Inr (objs h1 (next_addr h + j))"
      using LA keep ij by (simp add: loaded_image_def alloc_def)
    have lb: "loaded_image (load_image fs d2 idx hB) = Inr (objs h1 (next_addr h + j))"
      using d2 pn s by (simp add: load_image_def loaded_image_def alloc_def preproc_image_def)
    show ?thesis
      using cell s(2) la lb LA fresh unfolding j_def[symmetric] by simp
  qed
  have B: "load_image fs d1 idx hA = (Inl IndexError, hA) \<and>
              load_image fs d2 idx hB = (Inl IndexError, hB)"
    if r: "\<not> py_in_range (length (rows d)) idx" for idx
  proof -
    have "py_index imgs idx = Inl IndexError"
      using py_index_in_range(3)[of imgs idx] r ll by simp
    moreover have "py_index (names d1) idx = Inl IndexError"
      using py_index_in_range(3)[of "names d1" idx] r n by simp
    ultimately show ?thesis using lr im d2 by (simp add: load_image_def)
  qed
  show ?thesis using d2(1) k A B by blast
qed








section \<open>Properties of the example script\<close>

lemma py_for_try_except:
  "py_for (try_except_continue body) is w = (Inr (), foldl (\<lambda>w i. snd (body i w)) w is)"
  by (induction "is" arbitrary: w) (auto simp: try_except_continue_def split: prod.splits sum.splits)

lemma py_for_append:
  "py_for body (xs @ ys) w =
     (case py_for body xs w of (Inl e, w') \<Rightarrow> (Inl e, w') | (Inr u, w') \<Rightarrow> py_for body ys w')"
  by (induction xs arbitrary: w) (auto split: prod.splits sum.splits)

text \<open>
  Claim C6. In the example script every exception raised for an index of
  \<open>range(150)\<close> (loading, converting or saving) is swallowed by the bare
  \<open>except\<close>: the loop ends normally, and its final state is that of running the body
  for each of the 150 indices in turn, whatever the outcome at the indices before.
\<close>

theorem script_loop_never_stops:
  "script_loop fs lib dataset w =
     (Inr (), foldl (\<lambda>w i. snd (script_body fs lib dataset i w)) w [0..<150])"
  unfolding script_loop_def by (rule py_for_try_except)

section \<open>Properties of the model modules\<close>

lemma load_config_parse_error:
  assumes "open_file files name = Inr text" "yaml_load files text = Inl (YAMLError exc)"
  shows "load_config mvit_module_globals files name warnings =
           (Inl (NameError ''is_master_node''), warnings)"
  using assms by (simp add: load_config_def mvit_module_globals_def)

lemma load_config_parse_error_never_returns:
  assumes "open_file files name = Inr text" "yaml_load files text = Inl (YAMLError exc)"
  shows "\<exists>e. fst (load_config globals files name warnings) = Inl e"
  using assms
  by (auto simp: load_config_def split: option.splits pyobj.splits)

text \<open>
  Claim C3, at a configuration file that is not valid YAML: the handler of the parse
  error looks up the undefined name \<open>is_master_node\<close>, so \<open>load_config\<close> raises
  NameError; no warning is logged and the function does not return.
\<close>

theorem load_config_parse_error_raises_NameError:
  "load_config mvit_module_globals ex_config_files default_config_file_name [] =
     (Inl (NameError ''is_master_node''), [])"
  by (simp add: load_config_def mvit_module_globals_def ex_config_files_def)

section \<open>The properties at the example inputs\<close>

lemma ex_blank_frame: "writes_only_argument ex_blank"
  by (simp add: writes_only_argument_def ex_blank_def)

lemma ex_csv: "read_csv ex_fs ''valid.csv'' = Inr ex_df"
  by (simp add: ex_fs_def)

lemma ex_init_ram_full:
  "\<exists>ds h'. HealthDataset_init ex_fs ''valid.csv'' ''imgs/'' (Some ex_blank) (None :: unit label_transform option) True ex_store = (Inr ds, h')
     \<and> images ds = Some [0, 1] \<and> names ds = [Str ''a.png'', Str ''b.png'']
     \<and> load_ram ds \<and> transform ds = Some ex_blank \<and> target_transform ds = None
     \<and> labels ds = LabelTensor \<lparr>shape = [2], elems = [0, 1]\<rparr>
     \<and> next_addr h' = 2 \<and> objs h' 0 = [[(1, 1, 1), (44, 44, 44)]] \<and> objs h' 1 = [[(7, 7, 7)]]"
  by (simp add: HealthDataset_init_def Let_def ex_fs_def ex_df_def df_getitem_def cell_at_def
      preproc_image_def preproc_pixels_def stack3_def alloc_def ex_store_def
      squeeze_def FloatTensor_def label_code_def)

lemma ex_pixels:
  "preproc_pixels ex_fs ''imgs/a.png'' = Inr [[(1, 1, 1), (44, 44, 44)]]"
  "preproc_pixels ex_fs ''imgs/b.png'' = Inr [[(7, 7, 7)]]"
  by (simp_all add: preproc_pixels_def ex_fs_def stack3_def)

theorem labels_from_csv_witness:
  "read_csv ex_fs ''valid.csv'' = Inr ex_df \<and> ''label'' \<in> set (columns ex_df) \<and>
   rows ex_df = [[Str ''a.png'', Str ''negative''], [Str ''b.png'', Str ''positive'']] \<and>
   (\<exists>ds h'. HealthDataset_init ex_fs ''valid.csv'' ''imgs/'' (Some ex_blank)
              (None :: unit label_transform option) True ex_store = (Inr ds, h') \<and>
       labels ds = LabelTensor \<lparr>shape = [2], elems = [0, 1]\<rparr>)"
proof -
  from ex_init_ram_full obtain ds h' where
    init: "HealthDataset_init ex_fs ''valid.csv'' ''imgs/'' (Some ex_blank)
              (None :: unit label_transform option) True ex_store = (Inr ds, h')" by blast
  have lab: "''label'' \<in> set (columns ex_df)" by (simp add: ex_df_def)
  from labels_from_csv[OF ex_csv lab init]
  have "labels ds = LabelTensor \<lparr>shape = [2], elems = [0, 1]\<rparr>"
    by (simp add: ex_df_def cell_at_def)
  then show ?thesis using init ex_csv lab by (auto simp: ex_df_def)
qed

theorem image_cache_aligned_and_stable_witness:
  "read_csv ex_fs ''valid.csv'' = Inr ex_df \<and> writes_only_argument ex_blank \<and>
   (\<exists>ds h'. HealthDataset_init ex_fs ''valid.csv'' ''imgs/'' (Some ex_blank)
              (None :: unit label_transform option) True ex_store = (Inr ds, h') \<and>
       images ds = Some [0, 1] \<and>
       names ds = [Str ''a.png'', Str ''b.png''] \<and>
       objs h' 0 = [[(1, 1, 1), (44, 44, 44)]] \<and> objs h' 1 = [[(7, 7, 7)]] \<and>
       fst (HealthDataset_getitem ex_fs ds 1 h') =
         Inr (Transformed [[(7, 7, 7)]], Plain (TensorItem \<lparr>shape = [], elems = [1]\<rparr>)) \<and>
       objs (snd (HealthDataset_getitem ex_fs ds 1 h')) 2 = [] \<and>
       objs (snd (HealthDataset_getitem ex_fs ds 1 h')) 0 = [[(1, 1, 1), (44, 44, 44)]] \<and>
       objs (snd (HealthDataset_getitem ex_fs ds 1 h')) 1 = [[(7, 7, 7)]] \<and>
       objs (snd (load_image ex_fs ds 1 h')) 1 = [[(7, 7, 7)]] \<and>
       objs (snd (preproc_image ex_fs ''imgs/b.png'' h')) 1 = [[(7, 7, 7)]])"
proof -
  from ex_init_ram_full obtain ds h' where
    init: "HealthDataset_init ex_fs ''valid.csv'' ''imgs/'' (Some ex_blank)
              (None :: unit label_transform option) True ex_store = (Inr ds, h')"
    and f: "images ds = Some [0, 1]" "names ds = [Str ''a.png'', Str ''b.png'']"
      "load_ram ds" "transform ds = Some ex_blank" "target_transform ds = None"
      "labels ds = LabelTensor \<lparr>shape = [2], elems = [0, 1]\<rparr>"
      "next_addr h' = 2" "objs h' 0 = [[(1, 1, 1), (44, 44, 44)]]" "objs h' 1 = [[(7, 7, 7)]]"
    by blast
  have frame: "\<forall>f. Some ex_blank = Some f \<longrightarrow> writes_only_argument f"
    using ex_blank_frame by simp
  from image_cache_aligned_and_stable[OF ex_csv init frame order_refl, of 1 "''imgs/b.png''"] f
  have st: "objs (snd (HealthDataset_getitem ex_fs ds 1 h')) 0 = [[(1, 1, 1), (44, 44, 44)]]"
    "objs (snd (HealthDataset_getitem ex_fs ds 1 h')) 1 = [[(7, 7, 7)]]"
    "objs (snd (load_image ex_fs ds 1 h')) 1 = [[(7, 7, 7)]]"
    "objs (snd (preproc_image ex_fs ''imgs/b.png'' h')) 1 = [[(7, 7, 7)]]"
    by auto
  have g: "fst (HealthDataset_getitem ex_fs ds 1 h') =
         Inr (Transformed [[(7, 7, 7)]], Plain (TensorItem \<lparr>shape = [], elems = [1]\<rparr>))"
    "objs (snd (HealthDataset_getitem ex_fs ds 1 h')) 2 = []"
    using f by (simp_all add: HealthDataset_getitem_def load_image_def py_index_def image_copy_def
        alloc_def labels_getitem_def tensor_getitem_def ex_blank_def)
  show ?thesis using ex_csv ex_blank_frame init f st g by blast
qed

lemma ex_init_lazy_full:
  "\<exists>ds. HealthDataset_init ex_fs ''valid.csv'' ''imgs/'' (Some ex_blank) (None :: unit label_transform option) False ex_store = (Inr ds, ex_store)"
  by (simp add: HealthDataset_init_def Let_def ex_fs_def ex_df_def df_getitem_def cell_at_def
      squeeze_def FloatTensor_def label_code_def)

theorem load_image_cached_equals_recomputed_witness:
  "read_csv ex_fs ''valid.csv'' = Inr ex_df \<and>
   (\<exists>d1 h1 d2. HealthDataset_init ex_fs ''valid.csv'' ''imgs/'' (Some ex_blank)
              (None :: unit label_transform option) True ex_store = (Inr d1, h1) \<and>
       HealthDataset_init ex_fs ''valid.csv'' ''imgs/'' (Some ex_blank)
              (None :: unit label_transform option) False ex_store = (Inr d2, ex_store) \<and>
       cached_objects d1 = [0, 1] \<and>
       loaded_image (load_image ex_fs d1 0 (snd (load_image ex_fs d1 1 h1))) = Inr [[(1, 1, 1), (44, 44, 44)]] \<and>
       loaded_image (load_image ex_fs d2 0 ex_store) = Inr [[(1, 1, 1), (44, 44, 44)]] \<and>
       loaded_image (load_image ex_fs d1 (- 1) (snd (load_image ex_fs d1 1 h1))) = Inr [[(7, 7, 7)]] \<and>
       loaded_image (load_image ex_fs d2 (- 1) ex_store) = Inr [[(7, 7, 7)]] \<and>
       fst (load_image ex_fs d1 0 (snd (load_image ex_fs d1 1 h1))) = Inr 3 \<and>
       load_image ex_fs d1 2 (snd (load_image ex_fs d1 1 h1)) = (Inl IndexError, snd (load_image ex_fs d1 1 h1)) \<and>
       load_image ex_fs d2 2 ex_store = (Inl IndexError, ex_store))"
proof -
  from ex_init_ram_full obtain d1 h1 where
    init: "HealthDataset_init ex_fs ''valid.csv'' ''imgs/'' (Some ex_blank)
              (None :: unit label_transform option) True ex_store = (Inr d1, h1)"
    and f: "images d1 = Some [0, 1]" "load_ram d1"
      "next_addr h1 = 2" "objs h1 0 = [[(1, 1, 1), (44, 44, 44)]]" "objs h1 1 = [[(7, 7, 7)]]"
    by blast
  define hA where "hA = snd (load_image ex_fs d1 1 h1)"
  have hA: "next_addr hA = 3" "objs hA 0 = objs h1 0" "objs hA 1 = objs h1 1"
    using f by (simp_all add: hA_def load_image_def py_index_def image_copy_def alloc_def)
  have co: "cached_objects d1 = [0, 1]" using f by (simp add: cached_objects_def)
  have later: "next_addr h1 \<le> next_addr hA" using hA f by simp
  have intact: "\<forall>a\<in>set (cached_objects d1). objs hA a = objs h1 a" using co hA by simp
  have n: "length (rows ex_df) = 2" by (simp add: ex_df_def)
  have r: "py_in_range 2 0" "py_in_range 2 (- 1)" "\<not> py_in_range 2 2"
    by (simp_all add: py_in_range_def)
  have p: "py_position 2 0 = 0" "py_position 2 (- 1) = 1"
    by (simp_all add: py_position_def)
  have c: "index_of ''image'' (columns ex_df) = Some 0"
    "cell_at 0 (rows ex_df ! 0) = Str ''a.png''" "cell_at 0 (rows ex_df ! 1) = Str ''b.png''"
    by (simp_all add: ex_df_def cell_at_def)
  from load_image_cached_equals_recomputed[OF ex_csv init later intact, of ex_store]
  obtain d2 k where
    d2: "HealthDataset_init ex_fs ''valid.csv'' ''imgs/'' (Some ex_blank)
              (None :: unit label_transform option) False ex_store = (Inr d2, ex_store)"
    and k: "index_of ''image'' (columns ex_df) = Some k"
    and A: "\<And>idx. py_in_range (length (rows ex_df)) idx \<Longrightarrow>
              (\<exists>s v. cell_at k (rows ex_df ! py_position (length (rows ex_df)) idx) = Str s \<and>
                     preproc_pixels ex_fs (''imgs/'' @ s) = Inr v \<and>
                     loaded_image (load_image ex_fs d1 idx hA) = Inr v \<and>
                     loaded_image (load_image ex_fs d2 idx ex_store) = Inr v \<and>
                     fst (load_image ex_fs d1 idx hA) = Inr (next_addr hA) \<and>
                     next_addr hA \<notin> set (cached_objects d1))"
    and B: "\<And>idx. \<not> py_in_range (length (rows ex_df)) idx \<Longrightarrow>
              load_image ex_fs d1 idx hA = (Inl IndexError, hA) \<and>
              load_image ex_fs d2 idx ex_store = (Inl IndexError, ex_store)"
    by blast
  have k0: "k = 0" using k c by simp
  from A[of 0] r p n c k0 ex_pixels hA have a0:
    "loaded_image (load_image ex_fs d1 0 hA) = Inr [[(1, 1, 1), (44, 44, 44)]]"
    "loaded_image (load_image ex_fs d2 0 ex_store) = Inr [[(1, 1, 1), (44, 44, 44)]]"
    "fst (load_image ex_fs d1 0 hA) = Inr 3"
    by auto
  from A[of "- 1"] r p n c k0 ex_pixels have a1:
    "loaded_image (load_image ex_fs d1 (- 1) hA) = Inr [[(7, 7, 7)]]"
    "loaded_image (load_image ex_fs d2 (- 1) ex_store) = Inr [[(7, 7, 7)]]"
    by auto
  from B[of 2] r n have b:
    "load_image ex_fs d1 2 hA = (Inl IndexError, hA)"
    "load_image ex_fs d2 2 ex_store = (Inl IndexError, ex_store)"
    by auto
  show ?thesis using ex_csv init d2 co a0 a1 b unfolding hA_def by blast
qed







text \<open>
  Claim C7, at a table of one row with a label column: \<open>squeeze()\<close> turns the label
  tensor of shape \<open>[1]\<close> into a 0-dim tensor, so at the in-range index 0 the image
  loads but \<open>self.labels[idx]\<close> raises IndexError, and so does \<open>__len__\<close>.
\<close>

theorem getitem_single_row_raises:
  "\<exists>ds h'. HealthDataset_init ex_fs ''one.csv'' ''imgs/'' (None :: unit image_transform option)
              (None :: unit label_transform option) True ex_store = (Inr ds, h') \<and>
     length (rows (df ds)) = 1 \<and>
     labels ds = LabelTensor \<lparr>shape = [], elems = [1]\<rparr> \<and>
     py_index (names ds) 0 = Inr (Str ''a.png'') \<and>
     fst (load_image ex_fs ds 0 h') = Inr 1 \<and>
     fst (HealthDataset_getitem ex_fs ds 0 h') = Inl IndexError \<and>
     HealthDataset_len ds = Inl IndexError"
  by (simp add: HealthDataset_init_def Let_def ex_fs_def ex_df_one_def df_getitem_def cell_at_def
      preproc_image_def preproc_pixels_def stack3_def alloc_def ex_store_def
      squeeze_def FloatTensor_def label_code_def HealthDataset_getitem_def load_image_def
      py_index_def image_copy_def labels_getitem_def tensor_getitem_def HealthDataset_len_def)

end
